theory Spec2Isabelle
  imports Main
begin

section \<open>Values that cross the scripting bridge\<close>

text \<open>
  \<^verbatim>\<open>Preview.py\<close> wraps the scripting interface of Preview.app. Every method forwards to an
  object of the bridge (\<^verbatim>\<open>xa_scel\<close>, \<^verbatim>\<open>xa_elem\<close>). The bridge itself belongs to the operating
  system; it is modelled here as a test double with the four primitives a remote object
  offers: get an attribute, set an attribute, invoke an action, and get one attribute of every
  element of an array in one call (\<^verbatim>\<open>arrayByApplyingSelector_\<close>). The double keeps the state
  of the remote application and a log of the calls it has received, so that a theorem can
  say what the bridge was asked and with which arguments.
\<close>

type_synonym ref = nat

text \<open>
  \<^verbatim>\<open>AppKit.NSURL\<close>: the only constructor the module uses is
  \<^verbatim>\<open>AppKit.NSURL.alloc().initFileURLWithPath_(path)\<close>, the file URL of a path string.
\<close>

datatype NSURL = FileURL string

definition initFileURLWithPath :: "string \<Rightarrow> NSURL" where
  "initFileURLWithPath p = FileURL p"

text \<open>\<^verbatim>\<open>str(url)\<close> of a file URL: the URL text, the path behind the scheme prefix.\<close>

fun str_NSURL :: "NSURL \<Rightarrow> string" where
  "str_NSURL (FileURL p) = ''file://'' @ p"

text \<open>
  The Python values the module hands to the bridge or receives from it. \<open>VClass\<close> is a class
  object such as the builtin \<^verbatim>\<open>str\<close>; \<open>VRef\<close> is a remote object passed as an argument.
  \<open>VDict\<close> holds the items of a dictionary in their order; the module only passes
  dictionaries on and never compares them.
\<close>

datatype pyval =
    VNone
  | VBool bool
  | VStr string
  | VURL NSURL
  | VRef ref
  | VDict "(string \<times> pyval) list"
  | VClass string

datatype bridge_call =
    GetAttribute ref string
  | SetAttribute ref string pyval
  | InvokeAction ref string "pyval list"
  | GetAttributeForEach "ref list" string

text \<open>
  \<open>remote\<close> is the state of the remote application: the value of each attribute of each
  object (an attribute the object does not have reads as \<open>VNone\<close>). \<open>react\<close> is what the
  application does to its state when it receives an action; the module knows nothing about
  it, so it is left arbitrary. \<open>calls\<close> is the log, oldest call first.
\<close>

record bridge =
  remote :: "ref \<Rightarrow> string \<Rightarrow> pyval"
  react :: "bridge_call \<Rightarrow> (ref \<Rightarrow> string \<Rightarrow> pyval) \<Rightarrow> (ref \<Rightarrow> string \<Rightarrow> pyval)"
  calls :: "bridge_call list"

definition get_attribute :: "ref \<Rightarrow> string \<Rightarrow> bridge \<Rightarrow> pyval \<times> bridge" where
  "get_attribute r a b = (remote b r a, b\<lparr>calls := calls b @ [GetAttribute r a]\<rparr>)"

definition invoke_action :: "ref \<Rightarrow> string \<Rightarrow> pyval list \<Rightarrow> bridge \<Rightarrow> bridge" where
  "invoke_action r sel args b =
     b\<lparr>remote := react b (InvokeAction r sel args) (remote b),
       calls := calls b @ [InvokeAction r sel args]\<rparr>"

definition arrayByApplyingSelector :: "ref list \<Rightarrow> string \<Rightarrow> bridge \<Rightarrow> pyval list \<times> bridge" where
  "arrayByApplyingSelector rs a b =
     (map (\<lambda>r. remote b r a) rs, b\<lparr>calls := calls b @ [GetAttributeForEach rs a]\<rparr>)"

text \<open>A bridge double built from a table of objects and their attributes, with an empty log.\<close>

definition remote_of :: "(ref \<times> (string \<times> pyval) list) list \<Rightarrow> ref \<Rightarrow> string \<Rightarrow> pyval" where
  "remote_of tbl r a =
     (case map_of tbl r of
        None \<Rightarrow> VNone
      | Some attrs \<Rightarrow> (case map_of attrs a of None \<Rightarrow> VNone | Some v \<Rightarrow> v))"

definition fake_bridge :: "(ref \<times> (string \<times> pyval) list) list \<Rightarrow> bridge" where
  "fake_bridge tbl = \<lparr>remote = remote_of tbl, react = (\<lambda>c s. s), calls = []\<rparr>"

section \<open>XAPreviewApplication\<close>

text \<open>
  Modelled from the spec: the attributes \<^verbatim>\<open>xa_scel\<close> and \<^verbatim>\<open>xa_elem\<close> of a handle are set by
  base classes defined in other modules of the package (\<^verbatim>\<open>XABaseScriptable\<close>, \<^verbatim>\<open>XABase\<close>). The
  spec has every handle carry a reference to its counterpart in the remote application and
  no state of its own, so each is a field of the handle holding that reference, and reading
  it is a field read. \<^verbatim>\<open>xa_wcls\<close> is the field the constructor of this module assigns, the
  class of the application's windows.

  A property getter returns its value, the receiver as the call leaves it, and the bridge as
  the call leaves it. The bodies of the getters assign no field, so the receiver comes back
  as it went in.
\<close>

record XAPreviewApplication =
  app_xa_scel :: ref
  app_xa_wcls :: string

definition XAPreviewApplication_frontmost ::
    "XAPreviewApplication \<Rightarrow> bridge \<Rightarrow> pyval \<times> XAPreviewApplication \<times> bridge" where
  "XAPreviewApplication_frontmost self b =
     (case get_attribute (app_xa_scel self) ''frontmost'' b of (v, b') \<Rightarrow> (v, self, b'))"

definition XAPreviewApplication_name ::
    "XAPreviewApplication \<Rightarrow> bridge \<Rightarrow> pyval \<times> XAPreviewApplication \<times> bridge" where
  "XAPreviewApplication_name self b =
     (case get_attribute (app_xa_scel self) ''name'' b of (v, b') \<Rightarrow> (v, self, b'))"

definition XAPreviewApplication_version ::
    "XAPreviewApplication \<Rightarrow> bridge \<Rightarrow> pyval \<times> XAPreviewApplication \<times> bridge" where
  "XAPreviewApplication_version self b =
     (case get_attribute (app_xa_scel self) ''version'' b of (v, b') \<Rightarrow> (v, self, b'))"

text \<open>
  \<^verbatim>\<open>print(self, path: Union[str, AppKit.NSURL], show_prompt)\<close>: the argument is a string or a
  URL. A string is replaced by its file URL; then the print action is invoked with the
  path, the flag and \<^verbatim>\<open>None\<close> as properties.
\<close>

datatype url_arg = StrArg string | URLArg NSURL

definition XAPreviewApplication_print ::
    "XAPreviewApplication \<Rightarrow> url_arg \<Rightarrow> bool \<Rightarrow> bridge \<Rightarrow> bridge" where
  "XAPreviewApplication_print self path show_prompt b =
     (let path' = (case path of StrArg s \<Rightarrow> initFileURLWithPath s | URLArg u \<Rightarrow> u)
      in invoke_action (app_xa_scel self) ''print_printDialog_withProperties_''
           [VURL path', VBool show_prompt, VNone] b)"

section \<open>XAPreviewWindow\<close>

record XAPreviewWindow =
  win_xa_elem :: ref

definition XAPreviewWindow_properties ::
    "XAPreviewWindow \<Rightarrow> bridge \<Rightarrow> pyval \<times> XAPreviewWindow \<times> bridge" where
  "XAPreviewWindow_properties self b =
     (case get_attribute (win_xa_elem self) ''properties'' b of (v, b') \<Rightarrow> (v, self, b'))"

definition XAPreviewWindow_floating ::
    "XAPreviewWindow \<Rightarrow> bridge \<Rightarrow> pyval \<times> XAPreviewWindow \<times> bridge" where
  "XAPreviewWindow_floating self b =
     (case get_attribute (win_xa_elem self) ''floating'' b of (v, b') \<Rightarrow> (v, self, b'))"

definition XAPreviewWindow_modal ::
    "XAPreviewWindow \<Rightarrow> bridge \<Rightarrow> pyval \<times> XAPreviewWindow \<times> bridge" where
  "XAPreviewWindow_modal self b =
     (case get_attribute (win_xa_elem self) ''modal'' b of (v, b') \<Rightarrow> (v, self, b'))"

definition XAPreviewWindow_titled ::
    "XAPreviewWindow \<Rightarrow> bridge \<Rightarrow> pyval \<times> XAPreviewWindow \<times> bridge" where
  "XAPreviewWindow_titled self b =
     (case get_attribute (win_xa_elem self) ''titled'' b of (v, b') \<Rightarrow> (v, self, b'))"

section \<open>Paths\<close>

datatype error = IndexError | NotAPath

record XAPath =
  path_xa_elem :: NSURL

text \<open>
  Modelled from the spec: \<^verbatim>\<open>XABase.XAPath\<close>, the path value type, is defined in another
  module of the package. The spec describes it as a value wrapping a filesystem location,
  whose platform file reference is its \<^verbatim>\<open>xa_elem\<close>: a path string is wrapped as its file URL
  (``normalizes to a canonical file-URL form if given as a string''), a URL is wrapped as it
  is. Any other value is not a filesystem location; the constructor has nothing to wrap and
  raises.
\<close>

fun XAPath_init :: "pyval \<Rightarrow> error + XAPath" where
  "XAPath_init (VStr s) = Inr \<lparr>path_xa_elem = initFileURLWithPath s\<rparr>"
| "XAPath_init (VURL u) = Inr \<lparr>path_xa_elem = u\<rparr>"
| "XAPath_init _ = Inl NotAPath"


section \<open>XAPreviewDocument\<close>

record XAPreviewDocument =
  doc_xa_elem :: ref

definition XAPreviewDocument_properties ::
    "XAPreviewDocument \<Rightarrow> bridge \<Rightarrow> pyval \<times> XAPreviewDocument \<times> bridge" where
  "XAPreviewDocument_properties self b =
     (case get_attribute (doc_xa_elem self) ''properties'' b of (v, b') \<Rightarrow> (v, self, b'))"

definition XAPreviewDocument_name ::
    "XAPreviewDocument \<Rightarrow> bridge \<Rightarrow> pyval \<times> XAPreviewDocument \<times> bridge" where
  "XAPreviewDocument_name self b =
     (case get_attribute (doc_xa_elem self) ''name'' b of (v, b') \<Rightarrow> (v, self, b'))"


definition XAPreviewDocument_modified ::
    "XAPreviewDocument \<Rightarrow> bridge \<Rightarrow> pyval \<times> XAPreviewDocument \<times> bridge" where
  "XAPreviewDocument_modified self b =
     (case get_attribute (doc_xa_elem self) ''modified'' b of (v, b') \<Rightarrow> (v, self, b'))"

text \<open>
  \<^verbatim>\<open>print(self, print_properties=None, show_dialog=True)\<close>: an omitted \<^verbatim>\<open>print_properties\<close> is
  the default \<^verbatim>\<open>None\<close>, here \<open>None\<close>; a dictionary is \<open>Some\<close> of its items. The method
  returns \<^verbatim>\<open>self\<close>.
\<close>

definition XAPreviewDocument_print ::
    "XAPreviewDocument \<Rightarrow> (string \<times> pyval) list option \<Rightarrow> bool \<Rightarrow> bridge
      \<Rightarrow> XAPreviewDocument \<times> bridge" where
  "XAPreviewDocument_print self print_properties show_dialog b =
     (let print_properties' = (case print_properties of None \<Rightarrow> [] | Some d \<Rightarrow> d)
      in (self, invoke_action (doc_xa_elem self) ''print_printDialog_withProperties_''
                  [VRef (doc_xa_elem self), VBool show_dialog, VDict print_properties'] b))"

text \<open>\<^verbatim>\<open>save(self, file_path=None)\<close> calls \<^verbatim>\<open>saveAs_in_(None, file_path)\<close>.\<close>

definition XAPreviewDocument_save :: "XAPreviewDocument \<Rightarrow> string option \<Rightarrow> bridge \<Rightarrow> bridge" where
  "XAPreviewDocument_save self file_path b =
     invoke_action (doc_xa_elem self) ''saveAs_in_''
       [VNone, (case file_path of None \<Rightarrow> VNone | Some p \<Rightarrow> VStr p)] b"


section \<open>XAPreviewDocumentList\<close>

text \<open>The \<^verbatim>\<open>xa_elem\<close> of a list is the bridge's array of documents, in its order.\<close>

record XAPreviewDocumentList =
  list_xa_elem :: "ref list"


text \<open>
  Modelled from the spec: \<^verbatim>\<open>by_property\<close> belongs to \<^verbatim>\<open>XABase.XAList\<close> too. The spec has it
  scan the collection for the first element whose named attribute equals the given value
  and return that element, or the absent value when there is none; every call of the module
  reduces to the four primitives of the bridge, here one batched read of the attribute.
  The values compared by the lookups modelled below are strings and booleans.
\<close>

fun first_match :: "pyval \<Rightarrow> (ref \<times> pyval) list \<Rightarrow> ref option" where
  "first_match v [] = None"
| "first_match v ((r, x) # rest) = (if x = v then Some r else first_match v rest)"

definition XAList_by_property ::
    "XAPreviewDocumentList \<Rightarrow> string \<Rightarrow> pyval \<Rightarrow> bridge \<Rightarrow> XAPreviewDocument option \<times> bridge" where
  "XAList_by_property self property v b =
     (case arrayByApplyingSelector (list_xa_elem self) property b of
        (ls, b') \<Rightarrow>
          (case first_match v (zip (list_xa_elem self) ls) of
             None \<Rightarrow> (None, b')
           | Some r \<Rightarrow> (Some \<lparr>doc_xa_elem = r\<rparr>, b')))"

definition XAPreviewDocumentList_properties ::
    "XAPreviewDocumentList \<Rightarrow> bridge \<Rightarrow> pyval list \<times> bridge" where
  "XAPreviewDocumentList_properties self b =
     arrayByApplyingSelector (list_xa_elem self) ''properties'' b"



definition XAPreviewDocumentList_modified ::
    "XAPreviewDocumentList \<Rightarrow> bridge \<Rightarrow> pyval list \<times> bridge" where
  "XAPreviewDocumentList_modified self b =
     arrayByApplyingSelector (list_xa_elem self) ''modified'' b"

definition XAPreviewDocumentList_by_name ::
    "XAPreviewDocumentList \<Rightarrow> string \<Rightarrow> bridge \<Rightarrow> XAPreviewDocument option \<times> bridge" where
  "XAPreviewDocumentList_by_name self name b = XAList_by_property self ''name'' (VStr name) b"

text \<open>
  \<^verbatim>\<open>by_path(self, path: Union[str, XABase.XAPath])\<close>. For a string argument the source
  evaluates \<^verbatim>\<open>XABase.XAPath(str)\<close>: the constructor receives the builtin class \<^verbatim>\<open>str\<close>, not
  the argument. The lookup then compares the \<^verbatim>\<open>path\<close> attribute with \<^verbatim>\<open>str(path.xa_elem)\<close>.
\<close>

datatype path_arg = PathStr string | PathObj XAPath

definition XAPreviewDocumentList_by_path ::
    "XAPreviewDocumentList \<Rightarrow> path_arg \<Rightarrow> bridge
      \<Rightarrow> (error + XAPreviewDocument option) \<times> bridge" where
  "XAPreviewDocumentList_by_path self path b =
     (case (case path of PathStr s \<Rightarrow> XAPath_init (VClass ''str'') | PathObj p \<Rightarrow> Inr p) of
        Inl e \<Rightarrow> (Inl e, b)
      | Inr path' \<Rightarrow>
          (case XAList_by_property self ''path'' (VStr (str_NSURL (path_xa_elem path'))) b of
             (r, b') \<Rightarrow> (Inr r, b')))"

definition XAPreviewDocumentList_by_modified ::
    "XAPreviewDocumentList \<Rightarrow> bool \<Rightarrow> bridge \<Rightarrow> XAPreviewDocument option \<times> bridge" where
  "XAPreviewDocumentList_by_modified self modified b =
     XAList_by_property self ''modified'' (VBool modified) b"


section \<open>Fixtures\<close>

text \<open>
  The collection of the source's docstring: two open documents, \<^verbatim>\<open>Example1.pdf\<close> and
  \<^verbatim>\<open>Example2.pdf\<close>, remote objects 1 and 2.
\<close>

definition example_documents :: XAPreviewDocumentList where
  "example_documents = \<lparr>list_xa_elem = [1, 2]\<rparr>"

definition example_bridge :: bridge where
  "example_bridge = fake_bridge
     [(1, [(''name'', VStr ''Example1.pdf''), (''path'', VStr ''/docs/Example1.pdf''),
           (''modified'', VBool False)]),
      (2, [(''name'', VStr ''Example2.pdf''), (''path'', VStr ''/docs/Example2.pdf''),
           (''modified'', VBool True)])]"

text \<open>A document whose \<^verbatim>\<open>path\<close> attribute reads as the text of its file URL.\<close>

definition url_documents :: XAPreviewDocumentList where
  "url_documents = \<lparr>list_xa_elem = [1]\<rparr>"

definition url_bridge :: bridge where
  "url_bridge = fake_bridge
     [(1, [(''name'', VStr ''a.pdf''), (''path'', VStr ''file:///a.pdf'')])]"




section \<open>Auxiliary facts\<close>

lemma first_match_none:
  "first_match v (zip rs (map f rs)) = None \<longleftrightarrow> (\<forall>r\<in>set rs. f r \<noteq> v)"
  by (induction rs) auto

lemma first_match_some:
  "first_match v (zip rs (map f rs)) = Some r \<Longrightarrow>
     \<exists>i<length rs. r = rs ! i \<and> f (rs ! i) = v \<and> (\<forall>j<i. f (rs ! j) \<noteq> v)"
proof (induction rs)
  case Nil
  then show ?case by simp
next
  case (Cons a rs)
  show ?case
  proof (cases "f a = v")
    case True
    with Cons.prems have "r = a" by simp
    with True have "0 < length (a # rs) \<and> r = (a # rs) ! 0 \<and> f ((a # rs) ! 0) = v
        \<and> (\<forall>j<0. f ((a # rs) ! j) \<noteq> v)" by simp
    then show ?thesis by blast
  next
    case False
    with Cons.prems have "first_match v (zip rs (map f rs)) = Some r" by simp
    from Cons.IH [OF this] obtain i where i: "i < length rs" "r = rs ! i" "f (rs ! i) = v"
      "\<forall>j<i. f (rs ! j) \<noteq> v" by blast
    have "\<forall>j<Suc i. f ((a # rs) ! j) \<noteq> v"
    proof (intro allI impI)
      fix j assume "j < Suc i"
      then show "f ((a # rs) ! j) \<noteq> v" using False i(4) by (cases j) auto
    qed
    with i have "Suc i < length (a # rs) \<and> r = (a # rs) ! Suc i \<and> f ((a # rs) ! Suc i) = v
        \<and> (\<forall>j<Suc i. f ((a # rs) ! j) \<noteq> v)" by simp
    then show ?thesis by blast
  qed
qed



section \<open>Lookup by path\<close>

text \<open>
  Whatever string is given, \<^verbatim>\<open>by_path\<close> does the same thing with it: the string never reaches
  the path constructor. With the constructor as modelled the call raises before the bridge
  is asked anything, while a call with a path object always returns a lookup result.
\<close>

lemma by_path_string_ignored:
  "XAPreviewDocumentList_by_path l (PathStr s) b = XAPreviewDocumentList_by_path l (PathStr s') b"
  by (simp add: XAPreviewDocumentList_by_path_def)

lemma by_path_string_raises:
  "XAPreviewDocumentList_by_path l (PathStr s) b = (Inl NotAPath, b)"
  by (simp add: XAPreviewDocumentList_by_path_def)

lemma by_path_object_returns:
  "\<exists>r. fst (XAPreviewDocumentList_by_path l (PathObj p) b) = Inr r"
  by (simp add: XAPreviewDocumentList_by_path_def split: prod.splits)

text \<open>
  C1. The claim is that \<^verbatim>\<open>by_path\<close> gives the same result for a string and for the path
  value wrapping that string. On the collection of one document whose path reads
  \<^verbatim>\<open>file:///a.pdf\<close>, the path value of \<^verbatim>\<open>/a.pdf\<close> finds the document, and the string
  \<^verbatim>\<open>/a.pdf\<close> raises: the source passes the class \<^verbatim>\<open>str\<close> to the constructor in place of the
  argument.
\<close>

theorem by_path_string_differs_from_path_object:
  "XAPath_init (VStr ''/a.pdf'') = Inr \<lparr>path_xa_elem = FileURL ''/a.pdf''\<rparr>
   \<and> fst (XAPreviewDocumentList_by_path url_documents
            (PathObj \<lparr>path_xa_elem = FileURL ''/a.pdf''\<rparr>) url_bridge)
       = Inr (Some \<lparr>doc_xa_elem = 1\<rparr>)
   \<and> fst (XAPreviewDocumentList_by_path url_documents (PathStr ''/a.pdf'') url_bridge)
       = Inl NotAPath"
  by (simp add: XAPreviewDocumentList_by_path_def XAList_by_property_def
      arrayByApplyingSelector_def url_documents_def url_bridge_def fake_bridge_def
      remote_of_def initFileURLWithPath_def)

section \<open>Columnar projection\<close>



section \<open>Lookup by name\<close>

text \<open>
  C3. For every collection and every name \<open>x\<close>: when some element's name is \<open>x\<close>,
  \<^verbatim>\<open>by_name(x)\<close> returns the first such element (no element before it has that name); when
  none has, it returns the absent value \<open>None\<close>. The result type has no error: the lookup
  returns in both cases.
\<close>

theorem by_name_first_match_or_absent:
  "(if \<exists>r\<in>set (list_xa_elem l). remote b r ''name'' = VStr x
    then \<exists>i<length (list_xa_elem l).
           fst (XAPreviewDocumentList_by_name l x b) = Some \<lparr>doc_xa_elem = list_xa_elem l ! i\<rparr>
           \<and> remote b (list_xa_elem l ! i) ''name'' = VStr x
           \<and> (\<forall>j<i. remote b (list_xa_elem l ! j) ''name'' \<noteq> VStr x)
    else fst (XAPreviewDocumentList_by_name l x b) = None)"
proof (cases "first_match (VStr x)
    (zip (list_xa_elem l) (map (\<lambda>r. remote b r ''name'') (list_xa_elem l)))")
  case None
  then have "\<forall>r\<in>set (list_xa_elem l). remote b r ''name'' \<noteq> VStr x"
    by (simp add: first_match_none)
  with None show ?thesis
    by (auto simp: XAPreviewDocumentList_by_name_def XAList_by_property_def
        arrayByApplyingSelector_def)
next
  case (Some r)
  from first_match_some [OF Some] obtain i where i: "i < length (list_xa_elem l)"
    "r = list_xa_elem l ! i" "remote b (list_xa_elem l ! i) ''name'' = VStr x"
    "\<forall>j<i. remote b (list_xa_elem l ! j) ''name'' \<noteq> VStr x" by blast
  then have ex: "\<exists>r\<in>set (list_xa_elem l). remote b r ''name'' = VStr x"
    using nth_mem by blast
  have "fst (XAPreviewDocumentList_by_name l x b) = Some \<lparr>doc_xa_elem = list_xa_elem l ! i\<rparr>"
    using Some i(2)
    by (simp add: XAPreviewDocumentList_by_name_def XAList_by_property_def
        arrayByApplyingSelector_def)
  with i ex show ?thesis by auto
qed

theorem by_name_first_match_or_absent_witness:
  "fst (XAPreviewDocumentList_by_name example_documents ''Example2.pdf'' example_bridge)
     = Some \<lparr>doc_xa_elem = 2\<rparr>
   \<and> fst (XAPreviewDocumentList_by_name example_documents ''Missing.pdf'' example_bridge) = None"
  using by_name_first_match_or_absent [of example_documents example_bridge "''Example2.pdf''"]
    by_name_first_match_or_absent [of example_documents example_bridge "''Missing.pdf''"]
  by (simp add: example_documents_def example_bridge_def fake_bridge_def remote_of_def
      XAPreviewDocumentList_by_name_def XAList_by_property_def arrayByApplyingSelector_def)

section \<open>Printing a path from the application handle\<close>

text \<open>
  C4. For every string path, \<^verbatim>\<open>print(path, show_prompt)\<close> on the application handle adds
  exactly one call to the bridge: the print action, whose first argument is the file URL
  made from the string. The raw string is not among the arguments.
\<close>

theorem application_print_string_becomes_file_url:
  "calls (XAPreviewApplication_print self (StrArg s) show_prompt b) =
     calls b @ [InvokeAction (app_xa_scel self) ''print_printDialog_withProperties_''
                  [VURL (initFileURLWithPath s), VBool show_prompt, VNone]]
   \<and> VStr s \<notin> set [VURL (initFileURLWithPath s), VBool show_prompt, VNone]"
  by (simp add: XAPreviewApplication_print_def invoke_action_def Let_def)

text \<open>
  C8. For every path that is already a URL, the application's \<^verbatim>\<open>print\<close> hands that same URL
  to the print action: the first argument the bridge receives is the caller's URL.
\<close>

theorem application_print_url_passed_unchanged:
  "calls (XAPreviewApplication_print self (URLArg u) show_prompt b) =
     calls b @ [InvokeAction (app_xa_scel self) ''print_printDialog_withProperties_''
                  [VURL u, VBool show_prompt, VNone]]"
  by (simp add: XAPreviewApplication_print_def invoke_action_def Let_def)

section \<open>Saving a document\<close>

text \<open>
  C5. For every document handle, \<^verbatim>\<open>save(None)\<close> invokes the save action with \<^verbatim>\<open>None\<close> as
  destination, so no destination reaches the bridge, and \<^verbatim>\<open>save(p)\<close> invokes it with the
  string \<open>p\<close> itself as destination, neither wrapped in a URL nor changed.
\<close>

theorem document_save_destination:
  "calls (XAPreviewDocument_save d None b) =
     calls b @ [InvokeAction (doc_xa_elem d) ''saveAs_in_'' [VNone, VNone]]
   \<and> calls (XAPreviewDocument_save d (Some p) b) =
     calls b @ [InvokeAction (doc_xa_elem d) ''saveAs_in_'' [VNone, VStr p]]"
  by (simp add: XAPreviewDocument_save_def invoke_action_def)

section \<open>Clipboard export of a collection\<close>




section \<open>Printing a document\<close>

text \<open>
  C7. For every document handle \<open>d\<close> and all arguments, \<^verbatim>\<open>d.print(print_properties,
  show_dialog)\<close> returns \<open>d\<close> and adds exactly one call to the bridge: the print action on
  the remote document of \<open>d\<close>, with that document, the flag and the properties as arguments.
\<close>

theorem document_print_returns_self:
  "fst (XAPreviewDocument_print d print_properties show_dialog b) = d
   \<and> calls (snd (XAPreviewDocument_print d print_properties show_dialog b)) =
       calls b @ [InvokeAction (doc_xa_elem d) ''print_printDialog_withProperties_''
                    [VRef (doc_xa_elem d), VBool show_dialog,
                     VDict (case print_properties of None \<Rightarrow> [] | Some props \<Rightarrow> props)]]"
  by (simp add: XAPreviewDocument_print_def invoke_action_def Let_def)

text \<open>
  C9. For every document handle, \<^verbatim>\<open>print\<close> with \<^verbatim>\<open>print_properties\<close> omitted or \<^verbatim>\<open>None\<close> gives
  the print action the empty dictionary as properties; and whatever \<^verbatim>\<open>print_properties\<close>
  is, the properties argument the bridge receives is a dictionary, never \<^verbatim>\<open>None\<close>.
\<close>

theorem document_print_properties_never_null:
  "calls (snd (XAPreviewDocument_print d None show_dialog b)) =
     calls b @ [InvokeAction (doc_xa_elem d) ''print_printDialog_withProperties_''
                  [VRef (doc_xa_elem d), VBool show_dialog, VDict []]]
   \<and> (\<forall>print_properties. \<exists>x y props.
         last (calls (snd (XAPreviewDocument_print d print_properties show_dialog b))) =
           InvokeAction (doc_xa_elem d) ''print_printDialog_withProperties_'' [x, y, VDict props])"
  by (simp add: XAPreviewDocument_print_def invoke_action_def Let_def)

section \<open>Read-only property getters\<close>

text \<open>
  C10. Each read-only getter (application \<^verbatim>\<open>frontmost\<close>, \<^verbatim>\<open>name\<close>, \<^verbatim>\<open>version\<close>; window
  \<^verbatim>\<open>properties\<close>, \<^verbatim>\<open>floating\<close>, \<^verbatim>\<open>modal\<close>, \<^verbatim>\<open>titled\<close>; document \<^verbatim>\<open>properties\<close>, \<^verbatim>\<open>name\<close>,
  \<^verbatim>\<open>modified\<close>) returns the value the remote object has for that attribute, leaves the
  handle with every field as it was, and leaves the bridge as it was but for one new entry
  of the log, a get-attribute query of that attribute on the handle's remote object: the
  state of the remote application is unchanged, and no attribute is set and no action
  invoked.
\<close>

theorem getters_only_query:
  "XAPreviewApplication_frontmost app b =
     (remote b (app_xa_scel app) ''frontmost'', app,
      b\<lparr>calls := calls b @ [GetAttribute (app_xa_scel app) ''frontmost'']\<rparr>)
   \<and> XAPreviewApplication_name app b =
     (remote b (app_xa_scel app) ''name'', app,
      b\<lparr>calls := calls b @ [GetAttribute (app_xa_scel app) ''name'']\<rparr>)
   \<and> XAPreviewApplication_version app b =
     (remote b (app_xa_scel app) ''version'', app,
      b\<lparr>calls := calls b @ [GetAttribute (app_xa_scel app) ''version'']\<rparr>)
   \<and> XAPreviewWindow_properties win b =
     (remote b (win_xa_elem win) ''properties'', win,
      b\<lparr>calls := calls b @ [GetAttribute (win_xa_elem win) ''properties'']\<rparr>)
   \<and> XAPreviewWindow_floating win b =
     (remote b (win_xa_elem win) ''floating'', win,
      b\<lparr>calls := calls b @ [GetAttribute (win_xa_elem win) ''floating'']\<rparr>)
   \<and> XAPreviewWindow_modal win b =
     (remote b (win_xa_elem win) ''modal'', win,
      b\<lparr>calls := calls b @ [GetAttribute (win_xa_elem win) ''modal'']\<rparr>)
   \<and> XAPreviewWindow_titled win b =
     (remote b (win_xa_elem win) ''titled'', win,
      b\<lparr>calls := calls b @ [GetAttribute (win_xa_elem win) ''titled'']\<rparr>)
   \<and> XAPreviewDocument_properties doc b =
     (remote b (doc_xa_elem doc) ''properties'', doc,
      b\<lparr>calls := calls b @ [GetAttribute (doc_xa_elem doc) ''properties'']\<rparr>)
   \<and> XAPreviewDocument_name doc b =
     (remote b (doc_xa_elem doc) ''name'', doc,
      b\<lparr>calls := calls b @ [GetAttribute (doc_xa_elem doc) ''name'']\<rparr>)
   \<and> XAPreviewDocument_modified doc b =
     (remote b (doc_xa_elem doc) ''modified'', doc,
      b\<lparr>calls := calls b @ [GetAttribute (doc_xa_elem doc) ''modified'']\<rparr>)"
  by (simp add: XAPreviewApplication_frontmost_def XAPreviewApplication_name_def
      XAPreviewApplication_version_def XAPreviewWindow_properties_def
      XAPreviewWindow_floating_def XAPreviewWindow_modal_def XAPreviewWindow_titled_def
      XAPreviewDocument_properties_def XAPreviewDocument_name_def
      XAPreviewDocument_modified_def get_attribute_def)

end
